theory Spec2Isabelle
  imports Complex_Main "HOL-Library.Word"
begin

section \<open>M306: MPC settings and autotune (Marlin/src/gcode/temp/M306.cpp)\<close>

text \<open>
  The handler \<open>GcodeSuite::M306\<close> and the reporter \<open>GcodeSuite::M306_report\<close> are
  embedded as state-passing functions on a record of the firmware state they touch.
  The preprocessor switches of the file are fields of a configuration record, so one
  model covers every build. The coefficients are C \<open>float\<close>s; neither function does
  arithmetic on them, so their type is the type variable \<open>'f\<close> and every result below
  holds whatever the number representation is.
\<close>

subsection \<open>Build configuration\<close>

text \<open>
  \<open>HOTENDS\<close> is the bound of \<open>HOTEND_LOOP()\<close> and the declared length of
  \<open>thermalManager.temp_hotend\<close>; \<open>MPC_HEATER_POWER\<close> is the constant of
  Configuration.h.
\<close>

record 'f config =
  HAS_MULTI_EXTRUDER :: bool
  EXTRUDERS :: nat
  HOTENDS :: nat
  MPC_AUTOTUNE :: bool
  CAN_HOST :: bool
  CAN_TOOLHEAD :: bool
  MPC_INCLUDE_FAN :: bool
  MARLIN_SMALL_BUILD :: bool
  MPC_HEATER_POWER :: 'f

subsection \<open>The model store\<close>

text \<open>
  \<open>MPC_t\<close>: the five fields M306.cpp assigns, and the fan term. The struct is declared in
  temperature.h, outside this file.

  Modelled from the spec: the fan term of \<open>MPC_t\<close> and its two accessors
  \<open>applyFanAdjustment\<close> and \<open>fanCoefficient\<close>. The spec has the fan term "always
  expressed as baseline + delta", the derived fan coefficient (full-fan coefficient minus
  \<open>ambient_xfer_coeff_fan0\<close>) "always recoverable, never independently settable", and
  "setting the fan value is really setting the delta from the no-fan baseline". So the
  record keeps the delta, the full-fan coefficient is baseline plus delta, and the
  derived fan coefficient is the delta.
\<close>

record 'f MPC_t =
  heater_power :: 'f
  block_heat_capacity :: 'f
  sensor_responsiveness :: 'f
  ambient_xfer_coeff_fan0 :: 'f
  filament_heat_capacity_permm :: 'f
  fan_delta :: 'f

definition applyFanAdjustment :: "'f \<Rightarrow> 'f MPC_t \<Rightarrow> 'f MPC_t" where
  "applyFanAdjustment cf mpc = mpc\<lparr>fan_delta := cf\<rparr>"

definition fanCoefficient :: "'f MPC_t \<Rightarrow> 'f" where
  "fanCoefficient mpc = fan_delta mpc"

definition ambient_xfer_coeff_fan_full :: "('f::plus) MPC_t \<Rightarrow> 'f" where
  "ambient_xfer_coeff_fan_full mpc = ambient_xfer_coeff_fan0 mpc + fan_delta mpc"

datatype MPCTuningType = AUTO | FORCE_DIFFERENTIAL | FORCE_ASYMPTOTIC

subsection \<open>Observable effects\<close>

text \<open>
  Every call that leaves the two functions is recorded, in order, in the \<open>effects\<close> of
  the state: the serial macros with their argument lists as written in the source, and
  the calls of the collaborators (heading and echo prefix of the report, status line,
  autotune procedure, CAN transmission). What a collaborator prints itself belongs to its
  own entry.
\<close>

text \<open>
  An argument of a serial macro or of an \<open>MString\<close>: a string literal, an integer
  (written in decimal), or a \<open>p_float_t\<close>, a value with its number of decimal places.
\<close>

datatype 'f serial_arg = PSTR string | DEC int | p_float_t 'f nat

text \<open>\<open>MString<SIZE>\<close>: a text buffer with room for \<open>SIZE\<close> characters, built from its arguments.\<close>

datatype 'f MString = MString nat "'f serial_arg list"

datatype lcd_message = MSG_MPC_AUTOTUNE

datatype 'f effect =
    SERIAL_ECHOPGM "'f serial_arg list"
  | SERIAL_ECHOLNPGM "'f serial_arg list"
  | report_heading bool string
  | report_echo_start bool
  | LCD_MESSAGE lcd_message
  | MPC_autotune "8 word" MPCTuningType
  | ui_reset_status
  | CAN_toolhead_send_string "'f MString"

record 'f machine =
  active_extruder :: "8 word"
  temp_hotend :: "'f MPC_t list"
  effects :: "'f effect list"

definition emit :: "'f effect \<Rightarrow> 'f machine \<Rightarrow> 'f machine" where
  "emit x s = s\<lparr>effects := effects s @ [x]\<rparr>"

text \<open>
  \<open>thermalManager.MPC_autotune(e, tuning_type)\<close> is outside the file. Its effect on the
  model store is a parameter \<open>tune\<close> of the handler; the call itself is recorded.
\<close>

type_synonym 'f autotune = "8 word \<Rightarrow> MPCTuningType \<Rightarrow> 'f MPC_t list \<Rightarrow> 'f MPC_t list"

definition run_MPC_autotune ::
  "'f autotune \<Rightarrow> 8 word \<Rightarrow> MPCTuningType \<Rightarrow> 'f machine \<Rightarrow> 'f machine" where
  "run_MPC_autotune tune e tuning_type s =
     s\<lparr>temp_hotend := tune e tuning_type (temp_hotend s),
       effects := effects s @ [MPC_autotune e tuning_type]\<rparr>"

subsection \<open>The command parser\<close>

text \<open>
  Modelled from the spec: the G-code parser (parser.h, outside this file). The
  spec has it supply "a set of recognized single-letter field selectors with numeric
  values", with "field presence queried by letter". A parsed command maps each letter
  that occurs in it to its parameter; a parameter either has no value or carries what the
  readers \<open>value_int\<close>, \<open>value_byte\<close> and \<open>value_float\<close> return for its text.
\<close>

datatype 'f param = no_value | has_value (value_int: int) (value_byte: "8 word") (value_float: 'f)

type_synonym 'f parser = "char \<Rightarrow> 'f param option"

definition seen_test :: "'f parser \<Rightarrow> char \<Rightarrow> bool" where
  "seen_test p c = (p c \<noteq> None)"

definition seen :: "'f parser \<Rightarrow> string \<Rightarrow> bool" where
  "seen p cs = list_ex (\<lambda>c. p c \<noteq> None) cs"

definition seenval :: "'f parser \<Rightarrow> char \<Rightarrow> bool" where
  "seenval p c = (case p c of Some (has_value i b v) \<Rightarrow> True | _ \<Rightarrow> False)"

definition intval :: "'f parser \<Rightarrow> char \<Rightarrow> int \<Rightarrow> int" where
  "intval p c dval = (case p c of Some (has_value i b v) \<Rightarrow> i | _ \<Rightarrow> dval)"

definition byteval :: "'f parser \<Rightarrow> char \<Rightarrow> 8 word \<Rightarrow> 8 word" where
  "byteval p c dval = (case p c of Some (has_value i b v) \<Rightarrow> b | _ \<Rightarrow> dval)"

text \<open>\<open>parser.seenval(c)\<close> followed by \<open>parser.value_float()\<close>: the value read, if there is one.\<close>

definition floatval :: "'f parser \<Rightarrow> char \<Rightarrow> 'f option" where
  "floatval p c = (case p c of Some (has_value i b v) \<Rightarrow> Some v | _ \<Rightarrow> None)"

subsection \<open>M306_report\<close>

text \<open>The three serial calls of the loop body, for hotend \<open>e\<close> with record \<open>mpc\<close>.\<close>

definition hotend_line :: "'f config \<Rightarrow> nat \<Rightarrow> 'f MPC_t \<Rightarrow> 'f effect list" where
  "hotend_line cfg e mpc =
     [SERIAL_ECHOPGM
        [PSTR ''  M306 E'', DEC (int e),
         PSTR '' P'', p_float_t (heater_power mpc) 2,
         PSTR '' C'', p_float_t (block_heat_capacity mpc) 2,
         PSTR '' R'', p_float_t (sensor_responsiveness mpc) 4,
         PSTR '' A'', p_float_t (ambient_xfer_coeff_fan0 mpc) 4]]
     @ (if MPC_INCLUDE_FAN cfg
        then [SERIAL_ECHOPGM [PSTR '' F'', p_float_t (fanCoefficient mpc) 4]]
        else [])
     @ [SERIAL_ECHOLNPGM [PSTR '' H'', p_float_t (filament_heat_capacity_permm mpc) 4]]"

text \<open>
  One pass of \<open>HOTEND_LOOP()\<close>. Reading \<open>temp_hotend[e]\<close> past the end of the array is
  undefined behaviour in C++; the model returns \<open>None\<close> there.
\<close>

definition hotend_body :: "'f config \<Rightarrow> bool \<Rightarrow> nat \<Rightarrow> 'f machine \<Rightarrow> 'f machine option" where
  "hotend_body cfg forReplay e s =
     (if e < length (temp_hotend s)
      then Some (s\<lparr>effects := effects s @ report_echo_start forReplay
                     # hotend_line cfg e (temp_hotend s ! e)\<rparr>)
      else None)"

fun HOTEND_LOOP :: "(nat \<Rightarrow> 's \<Rightarrow> 's option) \<Rightarrow> nat list \<Rightarrow> 's \<Rightarrow> 's option" where
  "HOTEND_LOOP body [] s = Some s"
| "HOTEND_LOOP body (e # es) s =
     (case body e s of None \<Rightarrow> None | Some s' \<Rightarrow> HOTEND_LOOP body es s')"

text \<open>The buffer sent to the CAN host: hotend 0 only.\<close>

definition toolhead_buffer :: "'f config \<Rightarrow> 'f MPC_t \<Rightarrow> 'f MString" where
  "toolhead_buffer cfg mpc =
     MString 100
       ([PSTR ''M306 E0 P'', p_float_t (heater_power mpc) 2,
         PSTR '' C'', p_float_t (block_heat_capacity mpc) 2,
         PSTR '' R'', p_float_t (sensor_responsiveness mpc) 4,
         PSTR '' A'', p_float_t (ambient_xfer_coeff_fan0 mpc) 4]
        @ (if MPC_INCLUDE_FAN cfg then [PSTR '' F'', p_float_t (fanCoefficient mpc) 4] else [])
        @ [PSTR '' H'', p_float_t (filament_heat_capacity_permm mpc) 4])"

definition M306_report :: "'f config \<Rightarrow> bool \<Rightarrow> 'f machine \<Rightarrow> 'f machine option" where
  "M306_report cfg forReplay s =
     (if MARLIN_SMALL_BUILD cfg then Some s
      else
        let s1 = emit (report_heading forReplay ''Model predictive control'') s;
            s2 = (if CAN_HOST cfg \<and> forReplay
                  then emit (SERIAL_ECHOLNPGM [PSTR ''>>> Host M306 MPC settings:'']) s1
                  else s1)
        in case HOTEND_LOOP (hotend_body cfg forReplay) [0 ..< HOTENDS cfg] s2 of
             None \<Rightarrow> None
           | Some s3 \<Rightarrow>
               if CAN_TOOLHEAD cfg \<and> forReplay
               then (if 0 < length (temp_hotend s3)
                     then Some (emit (CAN_toolhead_send_string
                                        (toolhead_buffer cfg (temp_hotend s3 ! 0))) s3)
                     else None)
               else Some s3)"

subsection \<open>M306\<close>

text \<open>\<open>const uint8_t e = TERN0(HAS_MULTI_EXTRUDER, parser.intval('E', active_extruder))\<close>\<close>

definition extruder_index :: "'f config \<Rightarrow> 'f parser \<Rightarrow> 'f machine \<Rightarrow> 8 word" where
  "extruder_index cfg p s =
     (if HAS_MULTI_EXTRUDER cfg
      then word_of_int (intval p (CHR ''E'') (uint (active_extruder s)))
      else 0)"

text \<open>The \<open>switch (type)\<close> of the autotune branch.\<close>

definition tuning_type_of :: "8 word \<Rightarrow> MPCTuningType" where
  "tuning_type_of type =
     (if type = 1 then FORCE_DIFFERENTIAL
      else if type = 2 then FORCE_ASYMPTOTIC
      else AUTO)"

definition forwarding_notice :: "'f config \<Rightarrow> 'f effect" where
  "forwarding_notice cfg =
     SERIAL_ECHOLNPGM
       [PSTR (''>>> Forwarding M306 to toolhead'' @ [CHR 0x0A]
              @ ''>>> Store MPC setup in the host Configuration.h or use M500'' @ [CHR 0x0A]
              @ ''>>> MPC heater power is: ''),
        p_float_t (MPC_HEATER_POWER cfg) 1,
        PSTR ('' Watts'' @ [CHR 0x0A] @ ''>>> Please wait for the auto tune results...'')]"

definition range_error :: "'f config \<Rightarrow> 'f effect" where
  "range_error cfg =
     SERIAL_ECHOLNPGM
       [PSTR ''?(E)xtruder index out of range (0-'', DEC (int (EXTRUDERS cfg) - 1), PSTR '').'']"

text \<open>The assignments of the field-update branch, on the record \<open>mpc\<close> of the hotend.\<close>

definition set_fields :: "'f config \<Rightarrow> 'f parser \<Rightarrow> 'f MPC_t \<Rightarrow> 'f MPC_t" where
  "set_fields cfg p mpc0 =
     (let mpc1 = (case floatval p (CHR ''P'') of
                    Some v \<Rightarrow> mpc0\<lparr>heater_power := v\<rparr> | None \<Rightarrow> mpc0);
          mpc2 = (case floatval p (CHR ''C'') of
                    Some v \<Rightarrow> mpc1\<lparr>block_heat_capacity := v\<rparr> | None \<Rightarrow> mpc1);
          mpc3 = (case floatval p (CHR ''R'') of
                    Some v \<Rightarrow> mpc2\<lparr>sensor_responsiveness := v\<rparr> | None \<Rightarrow> mpc2);
          mpc4 = (case floatval p (CHR ''A'') of
                    Some v \<Rightarrow> mpc3\<lparr>ambient_xfer_coeff_fan0 := v\<rparr> | None \<Rightarrow> mpc3);
          mpc5 = (if MPC_INCLUDE_FAN cfg
                  then (case floatval p (CHR ''F'') of
                          Some v \<Rightarrow> applyFanAdjustment v mpc4 | None \<Rightarrow> mpc4)
                  else mpc4)
      in case floatval p (CHR ''H'') of
           Some v \<Rightarrow> mpc5\<lparr>filament_heat_capacity_permm := v\<rparr> | None \<Rightarrow> mpc5)"

text \<open>
  The autotune branch when the build is not a CAN host: status line, the autotune
  procedure, status reset, and on a CAN toolhead the report to the host.
\<close>

definition autotune_local ::
  "'f config \<Rightarrow> 'f autotune \<Rightarrow> 8 word \<Rightarrow> 8 word \<Rightarrow> 'f machine \<Rightarrow> 'f machine option" where
  "autotune_local cfg tune e type s =
     (let tuning_type = tuning_type_of type;
          s1 = emit (LCD_MESSAGE MSG_MPC_AUTOTUNE) s;
          s2 = run_MPC_autotune tune e tuning_type s1;
          s3 = emit ui_reset_status s2
      in if CAN_TOOLHEAD cfg then M306_report cfg True s3 else Some s3)"

text \<open>
  The handler. \<open>None\<close> stands for undefined behaviour: \<open>temp_hotend[e]\<close> with \<open>e\<close> past
  the end of the array.
\<close>

definition M306 :: "'f config \<Rightarrow> 'f autotune \<Rightarrow> 'f parser \<Rightarrow> 'f machine \<Rightarrow> 'f machine option" where
  "M306 cfg tune p s =
     (let e = extruder_index cfg p s in
      if EXTRUDERS cfg \<le> unat e then Some (emit (range_error cfg) s)
      else if MPC_AUTOTUNE cfg \<and> seen_test p (CHR ''T'') then
        (if CAN_HOST cfg then Some (emit (forwarding_notice cfg) s)
         else autotune_local cfg tune e (byteval p (CHR ''S'') 0) s)
      else if seen p ''ACFPRH'' then
        (if unat e < length (temp_hotend s)
         then Some (s\<lparr>temp_hotend :=
                        (temp_hotend s)[unat e := set_fields cfg p (temp_hotend s ! unat e)]\<rparr>)
         else None)
      else M306_report cfg True s)"

subsection \<open>The text of the output\<close>

text \<open>
  Modelled from the spec: how the serial macros and \<open>MString\<close> turn their arguments into
  characters (serial.h, mstring.h and numtostr.h, outside this file). A string is
  written as it is, an integer in decimal, and a \<open>p_float_t\<close> by a formatter \<open>fmt\<close> that
  is given the value and the number of decimal places; the formatter is a parameter.
  \<open>SERIAL_ECHOLNPGM\<close> ends the line. A buffer \<open>MString<SIZE>\<close> keeps at most \<open>SIZE\<close>
  characters.
\<close>

definition digit_char :: "nat \<Rightarrow> char" where
  "digit_char n = char_of (48 + n)"

fun dec_nat :: "nat \<Rightarrow> string" where
  "dec_nat n = (if n < 10 then [digit_char n] else dec_nat (n div 10) @ [digit_char (n mod 10)])"

declare dec_nat.simps [simp del]

definition dec_int :: "int \<Rightarrow> string" where
  "dec_int i = (if i < 0 then CHR ''-'' # dec_nat (nat (- i)) else dec_nat (nat i))"

fun arg_text :: "('f \<Rightarrow> nat \<Rightarrow> string) \<Rightarrow> 'f serial_arg \<Rightarrow> string" where
  "arg_text fmt (PSTR str) = str"
| "arg_text fmt (DEC i) = dec_int i"
| "arg_text fmt (p_float_t v prec) = fmt v prec"

definition args_text :: "('f \<Rightarrow> nat \<Rightarrow> string) \<Rightarrow> 'f serial_arg list \<Rightarrow> string" where
  "args_text fmt args = concat (map (arg_text fmt) args)"

text \<open>The characters the serial macros of an effect write; the other effects are not serial macros.\<close>

fun echo_text :: "('f \<Rightarrow> nat \<Rightarrow> string) \<Rightarrow> 'f effect \<Rightarrow> string" where
  "echo_text fmt (SERIAL_ECHOPGM args) = args_text fmt args"
| "echo_text fmt (SERIAL_ECHOLNPGM args) = args_text fmt args @ [CHR 0x0A]"
| "echo_text fmt other = []"

fun MString_text :: "('f \<Rightarrow> nat \<Rightarrow> string) \<Rightarrow> 'f MString \<Rightarrow> string" where
  "MString_text fmt (MString capacity args) = take capacity (args_text fmt args)"

text \<open>
  The canonical line in the spec's words:
  \<open><cmd> E<index> P<power:2dp> C<capacity:2dp> R<responsiveness:4dp> A<ambient_fan0:4dp>
  [F<fan_delta:4dp>] H<filament_capacity:4dp>\<close>, the F field being there when
  \<open>with_fan\<close> holds.
\<close>

definition canonical_line ::
  "('f \<Rightarrow> nat \<Rightarrow> string) \<Rightarrow> bool \<Rightarrow> nat \<Rightarrow> 'f MPC_t \<Rightarrow> string" where
  "canonical_line fmt with_fan index mpc =
     ''M306'' @ '' E'' @ dec_nat index
     @ '' P'' @ fmt (heater_power mpc) 2
     @ '' C'' @ fmt (block_heat_capacity mpc) 2
     @ '' R'' @ fmt (sensor_responsiveness mpc) 4
     @ '' A'' @ fmt (ambient_xfer_coeff_fan0 mpc) 4
     @ (if with_fan then '' F'' @ fmt (fanCoefficient mpc) 4 else [])
     @ '' H'' @ fmt (filament_heat_capacity_permm mpc) 4"

text \<open>
  A formatter to run the model with, on real numbers: the value rounded to \<open>prec\<close>
  decimal places, half away from zero, written with all \<open>prec\<close> places.
\<close>

fun pad_dec :: "nat \<Rightarrow> nat \<Rightarrow> string" where
  "pad_dec 0 n = []"
| "pad_dec (Suc k) n = pad_dec k (n div 10) @ [digit_char (n mod 10)]"

definition fixed_dp :: "real \<Rightarrow> nat \<Rightarrow> string" where
  "fixed_dp v prec =
     (let n = nat \<lfloor>\<bar>v\<bar> * 10 ^ prec + 1 / 2\<rfloor>
      in (if v < 0 then ''-'' else [])
         @ dec_nat (n div 10 ^ prec)
         @ (if prec = 0 then [] else CHR ''.'' # pad_dec prec (n mod 10 ^ prec)))"

text \<open>What a report appends to the effects, for a store \<open>hs\<close>.\<close>

definition report_effects :: "'f config \<Rightarrow> bool \<Rightarrow> 'f MPC_t list \<Rightarrow> 'f effect list" where
  "report_effects cfg forReplay hs =
     report_heading forReplay ''Model predictive control''
     # (if CAN_HOST cfg \<and> forReplay
        then [SERIAL_ECHOLNPGM [PSTR ''>>> Host M306 MPC settings:'']] else [])
     @ concat (map (\<lambda>e. report_echo_start forReplay # hotend_line cfg e (hs ! e))
                   [0 ..< HOTENDS cfg])
     @ (if CAN_TOOLHEAD cfg \<and> forReplay
        then [CAN_toolhead_send_string (toolhead_buffer cfg (hs ! 0))] else [])"

text \<open>The characters a list of effects writes to the serial console through the serial macros.\<close>

definition serial_text :: "('f \<Rightarrow> nat \<Rightarrow> string) \<Rightarrow> 'f effect list \<Rightarrow> string" where
  "serial_text fmt out = concat (map (echo_text fmt) out)"

text \<open>The buffers a list of effects hands to \<open>CAN_toolhead_send_string\<close>, in order.\<close>

fun sent_buffers :: "'f effect list \<Rightarrow> 'f MString list" where
  "sent_buffers [] = []"
| "sent_buffers (CAN_toolhead_send_string buffer # out) = buffer # sent_buffers out"
| "sent_buffers (other # out) = sent_buffers out"

text \<open>One canonical line for each hotend, in index order, as the report indents and ends them.\<close>

definition report_lines ::
  "('f \<Rightarrow> nat \<Rightarrow> string) \<Rightarrow> 'f config \<Rightarrow> 'f MPC_t list \<Rightarrow> string" where
  "report_lines fmt cfg hs =
     concat (map (\<lambda>e. ''  '' @ canonical_line fmt (MPC_INCLUDE_FAN cfg) e (hs ! e) @ [CHR 0x0A])
                 [0 ..< HOTENDS cfg])"

text \<open>A command with its coefficient letters A, C, F, P, R and H taken out.\<close>

definition without_fields :: "'f parser \<Rightarrow> 'f parser" where
  "without_fields p = (\<lambda>c. if c \<in> set ''ACFPRH'' then None else p c)"

text \<open>
  The strategy mapping in the spec's words: "selector 0 or absent: AUTO; 1: FORCE_DIFFERENTIAL;
  2: FORCE_ASYMPTOTIC; any other byte value: AUTO". The selector is the byte of the S
  parameter, absent when the command has no S with a value.
\<close>

definition selector :: "'f parser \<Rightarrow> 8 word option" where
  "selector p = (case p (CHR ''S'') of Some (has_value i b v) \<Rightarrow> Some b | _ \<Rightarrow> None)"

definition strategy_of_selector :: "8 word option \<Rightarrow> MPCTuningType" where
  "strategy_of_selector sel =
     (case sel of
        None \<Rightarrow> AUTO
      | Some b \<Rightarrow>
          if b = 0 then AUTO
          else if b = 1 then FORCE_DIFFERENTIAL
          else if b = 2 then FORCE_ASYMPTOTIC
          else AUTO)"

text \<open>The numbers an effect prints through a serial macro.\<close>

fun printed_floats :: "'f effect \<Rightarrow> 'f list" where
  "printed_floats (SERIAL_ECHOPGM args) = [v. p_float_t v prec \<leftarrow> args]"
| "printed_floats (SERIAL_ECHOLNPGM args) = [v. p_float_t v prec \<leftarrow> args]"
| "printed_floats other = []"

text \<open>
  The record a field update leaves: each of the five coefficients, and the fan term in a
  build with \<open>MPC_INCLUDE_FAN\<close>, is the value the command gives for its letter, or the
  old one when the letter has no value.
\<close>

definition updated :: "'f parser \<Rightarrow> char \<Rightarrow> 'f \<Rightarrow> 'f" where
  "updated p c old = (case floatval p c of Some v \<Rightarrow> v | None \<Rightarrow> old)"

definition edited :: "'f config \<Rightarrow> 'f parser \<Rightarrow> 'f MPC_t \<Rightarrow> 'f MPC_t" where
  "edited cfg p mpc =
     \<lparr>heater_power = updated p (CHR ''P'') (heater_power mpc),
      block_heat_capacity = updated p (CHR ''C'') (block_heat_capacity mpc),
      sensor_responsiveness = updated p (CHR ''R'') (sensor_responsiveness mpc),
      ambient_xfer_coeff_fan0 = updated p (CHR ''A'') (ambient_xfer_coeff_fan0 mpc),
      filament_heat_capacity_permm = updated p (CHR ''H'') (filament_heat_capacity_permm mpc),
      fan_delta = (if MPC_INCLUDE_FAN cfg then updated p (CHR ''F'') (fan_delta mpc)
                   else fan_delta mpc)\<rparr>"

subsection \<open>Builds, stores and commands to run the model on\<close>

text \<open>A printer with two extruders and the fan term, tuning locally.\<close>

definition two_extruders :: "real config" where
  "two_extruders =
     \<lparr>HAS_MULTI_EXTRUDER = True, EXTRUDERS = 2, HOTENDS = 2, MPC_AUTOTUNE = True,
      CAN_HOST = False, CAN_TOOLHEAD = False, MPC_INCLUDE_FAN = True,
      MARLIN_SMALL_BUILD = False, MPC_HEATER_POWER = 40\<rparr>"

text \<open>A printer with one hotend and no fan term, tuning locally.\<close>

definition single_hotend :: "real config" where
  "single_hotend =
     \<lparr>HAS_MULTI_EXTRUDER = False, EXTRUDERS = 1, HOTENDS = 1, MPC_AUTOTUNE = True,
      CAN_HOST = False, CAN_TOOLHEAD = False, MPC_INCLUDE_FAN = False,
      MARLIN_SMALL_BUILD = False, MPC_HEATER_POWER = 40\<rparr>"

text \<open>The host of a CAN toolhead, and the toolhead.\<close>

definition can_host :: "real config" where
  "can_host =
     \<lparr>HAS_MULTI_EXTRUDER = False, EXTRUDERS = 1, HOTENDS = 1, MPC_AUTOTUNE = True,
      CAN_HOST = True, CAN_TOOLHEAD = False, MPC_INCLUDE_FAN = False,
      MARLIN_SMALL_BUILD = False, MPC_HEATER_POWER = 40\<rparr>"

definition can_toolhead :: "real config" where
  "can_toolhead =
     \<lparr>HAS_MULTI_EXTRUDER = False, EXTRUDERS = 1, HOTENDS = 1, MPC_AUTOTUNE = True,
      CAN_HOST = False, CAN_TOOLHEAD = True, MPC_INCLUDE_FAN = True,
      MARLIN_SMALL_BUILD = False, MPC_HEATER_POWER = 40\<rparr>"

definition stock_mpc :: "real MPC_t" where
  "stock_mpc =
     \<lparr>heater_power = 40, block_heat_capacity = 1675 / 100, sensor_responsiveness = 22 / 100,
      ambient_xfer_coeff_fan0 = 68 / 1000, filament_heat_capacity_permm = 56 / 10000,
      fan_delta = 29 / 1000\<rparr>"

definition idle :: "real machine" where
  "idle = \<lparr>active_extruder = 0, temp_hotend = [stock_mpc, stock_mpc], effects = []\<rparr>"

definition idle1 :: "real machine" where
  "idle1 = \<lparr>active_extruder = 0, temp_hotend = [stock_mpc], effects = []\<rparr>"

text \<open>A store whose hotend 0 has been given a heater power of 50 W.\<close>

definition warm :: "real machine" where
  "warm = \<lparr>active_extruder = 0, temp_hotend = [stock_mpc\<lparr>heater_power := 50\<rparr>], effects = []\<rparr>"

text \<open>The store of the spec's scenario, after \<open>M306 P150 C33 R0.1 A0.12 H0.4\<close>.\<close>

definition scenario_mpc :: "real MPC_t" where
  "scenario_mpc =
     \<lparr>heater_power = 150, block_heat_capacity = 33, sensor_responsiveness = 1 / 10,
      ambient_xfer_coeff_fan0 = 12 / 100, filament_heat_capacity_permm = 4 / 10,
      fan_delta = 29 / 1000\<rparr>"

definition scenario :: "real machine" where
  "scenario = \<lparr>active_extruder = 0, temp_hotend = [scenario_mpc], effects = []\<rparr>"

text \<open>Autotune procedures: one that finds nothing, one that finds a block heat capacity of 20.\<close>

definition no_tune :: "real autotune" where
  "no_tune e t hs = hs"

definition retune :: "real autotune" where
  "retune e t hs = hs[unat e := (hs ! unat e)\<lparr>block_heat_capacity := 20\<rparr>]"

text \<open>
  The commands \<open>M306 E5 P50\<close>, \<open>M306 P150 C33 R0.1 A0.12 H0.4\<close>, \<open>M306 T P50\<close>,
  \<open>M306 T S1\<close>, \<open>M306 T\<close>, \<open>M306 E1 F0.05\<close> and \<open>M306 P\<close>.
\<close>

definition cmd_E5_P50 :: "real parser" where
  "cmd_E5_P50 = [CHR ''E'' \<mapsto> has_value 5 5 5, CHR ''P'' \<mapsto> has_value 50 50 50]"

definition cmd_scenario :: "real parser" where
  "cmd_scenario =
     [CHR ''P'' \<mapsto> has_value 150 150 150, CHR ''C'' \<mapsto> has_value 33 33 33,
      CHR ''R'' \<mapsto> has_value 0 0 (1 / 10), CHR ''A'' \<mapsto> has_value 0 0 (12 / 100),
      CHR ''H'' \<mapsto> has_value 0 0 (4 / 10)]"

definition cmd_T_P50 :: "real parser" where
  "cmd_T_P50 = [CHR ''T'' \<mapsto> no_value, CHR ''P'' \<mapsto> has_value 50 50 50]"

definition cmd_T_S1 :: "real parser" where
  "cmd_T_S1 = [CHR ''T'' \<mapsto> no_value, CHR ''S'' \<mapsto> has_value 1 1 1]"

definition cmd_T :: "real parser" where
  "cmd_T = [CHR ''T'' \<mapsto> no_value]"

definition cmd_E1_F :: "real parser" where
  "cmd_E1_F = [CHR ''E'' \<mapsto> has_value 1 1 1, CHR ''F'' \<mapsto> has_value 0 0 (5 / 100)]"

definition cmd_P :: "real parser" where
  "cmd_P = [CHR ''P'' \<mapsto> no_value]"

section \<open>Properties\<close>

subsection \<open>The report, effect by effect\<close>

lemma dec_nat_0: "dec_nat 0 = ''0''"
  by code_simp

lemma HOTEND_LOOP_effects:
  "(\<forall>e \<in> set es. e < length (temp_hotend s)) \<Longrightarrow>
   HOTEND_LOOP (hotend_body cfg r) es s =
     Some (s\<lparr>effects := effects s @
       concat (map (\<lambda>e. report_echo_start r # hotend_line cfg e (temp_hotend s ! e)) es)\<rparr>)"
proof (induction es arbitrary: s)
  case Nil
  then show ?case by simp
next
  case (Cons e es)
  then show ?case by (simp add: hotend_body_def)
qed

lemma HOTEND_LOOP_store:
  "HOTEND_LOOP (hotend_body cfg r) es s = Some s' \<Longrightarrow>
   temp_hotend s' = temp_hotend s \<and> active_extruder s' = active_extruder s"
proof (induction es arbitrary: s)
  case Nil
  then show ?case by simp
next
  case (Cons e es)
  from Cons.prems obtain s1 where
    body: "hotend_body cfg r e s = Some s1" and
    rest: "HOTEND_LOOP (hotend_body cfg r) es s1 = Some s'"
    by (auto split: option.splits)
  from body have "temp_hotend s1 = temp_hotend s \<and> active_extruder s1 = active_extruder s"
    by (auto simp add: hotend_body_def split: if_splits)
  with Cons.IH [OF rest] show ?case by simp
qed

lemma M306_report_effects:
  assumes "\<not> MARLIN_SMALL_BUILD cfg" "HOTENDS cfg \<le> length (temp_hotend s)"
    "CAN_TOOLHEAD cfg \<and> r \<Longrightarrow> 0 < length (temp_hotend s)"
  shows "M306_report cfg r s = Some (s\<lparr>effects := effects s @ report_effects cfg r (temp_hotend s)\<rparr>)"
  using assms
  by (auto simp add: M306_report_def Let_def emit_def HOTEND_LOOP_effects report_effects_def)

lemma M306_report_store:
  assumes "M306_report cfg r s = Some s'"
  shows "temp_hotend s' = temp_hotend s \<and> active_extruder s' = active_extruder s"
proof (cases "MARLIN_SMALL_BUILD cfg")
  case True
  with assms show ?thesis by (simp add: M306_report_def)
next
  case False
  let ?s2 = "if CAN_HOST cfg \<and> r
      then emit (SERIAL_ECHOLNPGM [PSTR ''>>> Host M306 MPC settings:''])
             (emit (report_heading r ''Model predictive control'') s)
      else emit (report_heading r ''Model predictive control'') s"
  from assms False obtain s3 where
    loop: "HOTEND_LOOP (hotend_body cfg r) [0 ..< HOTENDS cfg] ?s2 = Some s3"
    and fin: "s' = s3 \<or> s' = emit (CAN_toolhead_send_string (toolhead_buffer cfg (temp_hotend s3 ! 0))) s3"
    by (auto simp add: M306_report_def Let_def split: option.splits if_splits)
  from HOTEND_LOOP_store [OF loop] have "temp_hotend s3 = temp_hotend s \<and> active_extruder s3 = active_extruder s"
    by (simp add: emit_def split: if_splits)
  with fin show ?thesis by (auto simp add: emit_def)
qed

lemma serial_text_Nil: "serial_text fmt [] = []"
  by (simp add: serial_text_def)

lemma serial_text_Cons: "serial_text fmt (x # xs) = echo_text fmt x @ serial_text fmt xs"
  by (simp add: serial_text_def)

lemma serial_text_append: "serial_text fmt (xs @ ys) = serial_text fmt xs @ serial_text fmt ys"
  by (simp add: serial_text_def)

lemma hotend_line_text:
  "serial_text fmt (hotend_line cfg e mpc) =
     ''  '' @ canonical_line fmt (MPC_INCLUDE_FAN cfg) e mpc @ [CHR 0x0A]"
  by (simp add: serial_text_def hotend_line_def canonical_line_def args_text_def dec_int_def)

lemma toolhead_buffer_text:
  "MString_text fmt (toolhead_buffer cfg mpc) =
     take 100 (canonical_line fmt (MPC_INCLUDE_FAN cfg) 0 mpc)"
  by (simp add: toolhead_buffer_def canonical_line_def args_text_def dec_nat_0)

lemma serial_text_lines:
  "serial_text fmt (concat (map (\<lambda>e. report_echo_start r # hotend_line cfg e (hs ! e)) es)) =
   concat (map (\<lambda>e. ''  '' @ canonical_line fmt (MPC_INCLUDE_FAN cfg) e (hs ! e) @ [CHR 0x0A]) es)"
proof (induction es)
  case Nil
  show ?case by (simp add: serial_text_Nil)
next
  case (Cons e es)
  have "serial_text fmt
          (concat (map (\<lambda>e. report_echo_start r # hotend_line cfg e (hs ! e)) (e # es))) =
        serial_text fmt (hotend_line cfg e (hs ! e)) @
        serial_text fmt (concat (map (\<lambda>e. report_echo_start r # hotend_line cfg e (hs ! e)) es))"
    by (simp add: serial_text_Cons serial_text_append)
  then show ?case
    by (simp only: Cons.IH hotend_line_text) simp
qed

lemma serial_text_report_effects:
  "serial_text fmt (report_effects cfg r hs) =
     (if CAN_HOST cfg \<and> r then ''>>> Host M306 MPC settings:'' @ [CHR 0x0A] else [])
     @ report_lines fmt cfg hs"
proof -
  have "serial_text fmt (report_effects cfg r hs) =
        (if CAN_HOST cfg \<and> r then ''>>> Host M306 MPC settings:'' @ [CHR 0x0A] else [])
        @ serial_text fmt (concat (map (\<lambda>e. report_echo_start r # hotend_line cfg e (hs ! e))
                                        [0 ..< HOTENDS cfg]))"
    by (simp add: report_effects_def serial_text_Cons serial_text_append serial_text_Nil
        args_text_def)
  then show ?thesis
    by (simp only: serial_text_lines report_lines_def)
qed

lemma sent_buffers_append: "sent_buffers (xs @ ys) = sent_buffers xs @ sent_buffers ys"
  by (induction xs rule: sent_buffers.induct) simp_all

lemma sent_buffers_hotend_line: "sent_buffers (hotend_line cfg e mpc) = []"
  by (simp add: hotend_line_def)

lemma sent_buffers_lines:
  "sent_buffers (concat (map (\<lambda>e. report_echo_start r # hotend_line cfg e (hs ! e)) es)) = []"
  by (induction es) (simp_all add: sent_buffers_append sent_buffers_hotend_line)

lemma sent_buffers_report_effects:
  "sent_buffers (report_effects cfg r hs) =
     (if CAN_TOOLHEAD cfg \<and> r then [toolhead_buffer cfg (hs ! 0)] else [])"
  by (simp add: report_effects_def sent_buffers_append sent_buffers_lines)

subsection \<open>Running the model\<close>

lemma digit_chars:
  "digit_char 0 = CHR ''0''" "digit_char (Suc 0) = CHR ''1''" "digit_char 2 = CHR ''2''"
  "digit_char 3 = CHR ''3''" "digit_char 4 = CHR ''4''" "digit_char 5 = CHR ''5''"
  "digit_char 6 = CHR ''6''" "digit_char 7 = CHR ''7''" "digit_char 8 = CHR ''8''"
  "digit_char 9 = CHR ''9''"
  by code_simp+

lemma dec_nat_digit: "n < 10 \<Longrightarrow> dec_nat n = [digit_char n]"
  by (subst dec_nat.simps) simp

lemma dec_nat_more: "10 \<le> n \<Longrightarrow> dec_nat n = dec_nat (n div 10) @ [digit_char (n mod 10)]"
  by (subst dec_nat.simps) simp

lemma pad_dec_2: "pad_dec 2 n = [digit_char (n div 10 mod 10), digit_char (n mod 10)]"
  by (simp add: numeral_2_eq_2)

lemma pad_dec_4:
  "pad_dec 4 n =
     [digit_char (n div 10 div 10 div 10 mod 10), digit_char (n div 10 div 10 mod 10),
      digit_char (n div 10 mod 10), digit_char (n mod 10)]"
proof -
  have "(4::nat) = Suc (Suc (Suc (Suc 0)))" by simp
  then show ?thesis by (simp only: pad_dec.simps append_Nil append_Cons)
qed

lemmas formatting = fixed_dp_def Let_def dec_nat_digit dec_nat_more pad_dec_2 pad_dec_4 digit_chars

lemma scenario_applied: "M306 single_hotend no_tune cmd_scenario idle1 = Some scenario"
  by (simp add: M306_def Let_def single_hotend_def extruder_index_def seen_test_def seen_def
      cmd_scenario_def idle1_def scenario_def scenario_mpc_def stock_mpc_def set_fields_def
      floatval_def)

lemma scenario_line:
  "canonical_line fixed_dp False 0 scenario_mpc =
     ''M306 E0 P150.00 C33.00 R0.1000 A0.1200 H0.4000''"
  by (simp add: canonical_line_def scenario_mpc_def formatting)

lemma stock_line:
  "canonical_line fixed_dp True 0 stock_mpc =
     ''M306 E0 P40.00 C16.75 R0.2200 A0.0680 F0.0290 H0.0056''"
  by (simp add: canonical_line_def stock_mpc_def fanCoefficient_def formatting)

lemma scenario_lines:
  "report_lines fixed_dp single_hotend (temp_hotend scenario) =
     ''  M306 E0 P150.00 C33.00 R0.1000 A0.1200 H0.4000'' @ [CHR 0x0A]"
  by (simp add: report_lines_def single_hotend_def scenario_def scenario_line)

lemma toolhead_lines:
  "report_lines fixed_dp can_toolhead (temp_hotend idle1) =
     ''  M306 E0 P40.00 C16.75 R0.2200 A0.0680 F0.0290 H0.0056'' @ [CHR 0x0A]"
  by (simp add: report_lines_def can_toolhead_def idle1_def stock_line)

subsection \<open>A field update, then the report\<close>

text \<open>
  After a field update the line of the element carries, under each letter and with the
  decimal places of that letter, the value the command gave for it, and the stored value
  for a letter the command gave no value.
\<close>

lemma set_fields_edited: "set_fields cfg p mpc = edited cfg p mpc"
  by (cases mpc)
     (simp add: set_fields_def edited_def updated_def Let_def applyFanAdjustment_def
       split: option.splits)

lemma M306_update_then_report_line:
  assumes "\<not> (MPC_AUTOTUNE cfg \<and> seen_test p (CHR ''T''))"
    and "unat (extruder_index cfg p s) < EXTRUDERS cfg"
    and "unat (extruder_index cfg p s) < length (temp_hotend s)"
    and "seen p ''ACFPRH''"
  shows "\<exists>s'. M306 cfg tune p s = Some s'
           \<and> serial_text fmt (hotend_line cfg (unat (extruder_index cfg p s))
                                 (temp_hotend s' ! unat (extruder_index cfg p s))) =
               ''  '' @ canonical_line fmt (MPC_INCLUDE_FAN cfg) (unat (extruder_index cfg p s))
                          (edited cfg p (temp_hotend s ! unat (extruder_index cfg p s)))
               @ [CHR 0x0A]"
  using assms by (auto simp add: M306_def Let_def hotend_line_text set_fields_edited)

subsection \<open>The claims\<close>

text \<open>
  Claim C1. When the element index \<open>e\<close> of the handler is not below \<open>EXTRUDERS\<close>, the
  handler writes exactly one line to the console, the out-of-range notice, and returns:
  the model store and everything else in the state are as before, and the autotune
  procedure is not called (no other effect is recorded). The index \<open>e\<close> is the
  \<open>uint8_t\<close> of the source: the E parameter (or the active extruder) converted to a
  byte in a build with several extruders, and 0 in any other build.
\<close>

theorem M306_index_out_of_range:
  assumes "EXTRUDERS cfg \<le> unat (extruder_index cfg p s)"
  shows "M306 cfg tune p s =
           Some (s\<lparr>effects := effects s @
             [SERIAL_ECHOLNPGM [PSTR ''?(E)xtruder index out of range (0-'',
                                DEC (int (EXTRUDERS cfg) - 1), PSTR '').'']]\<rparr>)"
  using assms by (simp add: M306_def emit_def range_error_def)

theorem M306_index_out_of_range_witness:
  "EXTRUDERS two_extruders \<le> unat (extruder_index two_extruders cmd_E5_P50 idle)
   \<and> M306 two_extruders no_tune cmd_E5_P50 idle =
       Some (idle\<lparr>effects :=
         [SERIAL_ECHOLNPGM [PSTR ''?(E)xtruder index out of range (0-'', DEC 1, PSTR '').'']]\<rparr>)"
proof -
  have h: "EXTRUDERS two_extruders \<le> unat (extruder_index two_extruders cmd_E5_P50 idle)"
    by (simp add: two_extruders_def extruder_index_def intval_def cmd_E5_P50_def)
  from M306_index_out_of_range [OF h, of no_tune] h show ?thesis
    by (simp add: two_extruders_def idle_def)
qed

lemma extruder_index_without_fields:
  "extruder_index cfg (without_fields p) s = extruder_index cfg p s"
  by (simp add: extruder_index_def intval_def without_fields_def)

lemma seen_without_fields: "\<not> seen (without_fields p) ''ACFPRH''"
  by (simp add: seen_def without_fields_def)

lemma M306_without_fields:
  assumes "MPC_AUTOTUNE cfg" and "seen_test p (CHR ''T'')"
  shows "M306 cfg tune p s = M306 cfg tune (without_fields p) s"
proof -
  have "seen_test (without_fields p) (CHR ''T'')"
    using assms(2) by (simp add: seen_test_def without_fields_def)
  moreover have "byteval (without_fields p) (CHR ''S'') 0 = byteval p (CHR ''S'') 0"
    by (simp add: byteval_def without_fields_def)
  ultimately show ?thesis
    using assms by (simp add: M306_def Let_def extruder_index_without_fields)
qed

lemma autotune_local_store:
  assumes "autotune_local cfg tune e type s = Some s'"
  shows "temp_hotend s' = tune e (tuning_type_of type) (temp_hotend s)"
proof (cases "CAN_TOOLHEAD cfg")
  case True
  with assms have "M306_report cfg True
      (emit ui_reset_status (run_MPC_autotune tune e (tuning_type_of type)
         (emit (LCD_MESSAGE MSG_MPC_AUTOTUNE) s))) = Some s'"
    by (simp add: autotune_local_def Let_def)
  from M306_report_store [OF this] show ?thesis
    by (simp add: emit_def run_MPC_autotune_def)
next
  case False
  with assms show ?thesis
    by (auto simp add: autotune_local_def Let_def emit_def run_MPC_autotune_def)
qed

text \<open>
  Claim C2. In a build with \<open>MPC_AUTOTUNE\<close>, a command that has the letter T is handled
  exactly as the same command with its coefficient letters A, C, F, P, R and H taken out:
  the handler returns from the autotune branch and the field-update branch is not
  reached. The model store of the result is the store as it was (index out of range, or
  CAN host) or as the autotune procedure left it; no value of the command is assigned.
\<close>

theorem M306_autotune_ignores_fields:
  assumes "MPC_AUTOTUNE cfg" and "seen_test p (CHR ''T'')"
  shows "M306 cfg tune p s = M306 cfg tune (without_fields p) s
         \<and> \<not> seen (without_fields p) ''ACFPRH''
         \<and> (\<forall>s'. M306 cfg tune p s = Some s' \<longrightarrow>
              temp_hotend s' =
                (if EXTRUDERS cfg \<le> unat (extruder_index cfg p s) \<or> CAN_HOST cfg
                 then temp_hotend s
                 else tune (extruder_index cfg p s)
                        (tuning_type_of (byteval p (CHR ''S'') 0)) (temp_hotend s)))"
proof (intro conjI allI impI)
  show "M306 cfg tune p s = M306 cfg tune (without_fields p) s"
    using assms by (rule M306_without_fields)
  show "\<not> seen (without_fields p) ''ACFPRH''"
    by (rule seen_without_fields)
next
  fix s'
  assume run: "M306 cfg tune p s = Some s'"
  show "temp_hotend s' =
          (if EXTRUDERS cfg \<le> unat (extruder_index cfg p s) \<or> CAN_HOST cfg
           then temp_hotend s
           else tune (extruder_index cfg p s)
                  (tuning_type_of (byteval p (CHR ''S'') 0)) (temp_hotend s))"
  proof (cases "EXTRUDERS cfg \<le> unat (extruder_index cfg p s) \<or> CAN_HOST cfg")
    case True
    with run assms show ?thesis
      by (auto simp add: M306_def Let_def emit_def split: if_splits)
  next
    case False
    with run assms have
      "autotune_local cfg tune (extruder_index cfg p s) (byteval p (CHR ''S'') 0) s = Some s'"
      by (simp add: M306_def Let_def)
    from autotune_local_store [OF this] False show ?thesis by simp
  qed
qed

theorem M306_autotune_ignores_fields_witness:
  "MPC_AUTOTUNE two_extruders \<and> seen_test cmd_T_P50 (CHR ''T'')
   \<and> M306 two_extruders retune cmd_T_P50 idle =
       M306 two_extruders retune (without_fields cmd_T_P50) idle
   \<and> M306 two_extruders retune cmd_T_P50 idle =
       Some (idle\<lparr>temp_hotend := [stock_mpc\<lparr>block_heat_capacity := 20\<rparr>, stock_mpc],
                  effects := [LCD_MESSAGE MSG_MPC_AUTOTUNE, MPC_autotune 0 AUTO,
                              ui_reset_status]\<rparr>)"
proof -
  have h1: "MPC_AUTOTUNE two_extruders"
    by (simp add: two_extruders_def)
  have h2: "seen_test cmd_T_P50 (CHR ''T'')"
    by (simp add: seen_test_def cmd_T_P50_def)
  have same: "M306 two_extruders retune cmd_T_P50 idle =
       M306 two_extruders retune (without_fields cmd_T_P50) idle"
    by (rule conjunct1 [OF M306_autotune_ignores_fields [OF h1 h2]])
  have run: "M306 two_extruders retune cmd_T_P50 idle =
       Some (idle\<lparr>temp_hotend := [stock_mpc\<lparr>block_heat_capacity := 20\<rparr>, stock_mpc],
                  effects := [LCD_MESSAGE MSG_MPC_AUTOTUNE, MPC_autotune 0 AUTO,
                              ui_reset_status]\<rparr>)"
    by (simp add: M306_def Let_def two_extruders_def extruder_index_def intval_def
        seen_test_def cmd_T_P50_def idle_def autotune_local_def byteval_def tuning_type_of_def
        emit_def run_MPC_autotune_def retune_def)
  from h1 h2 same run show ?thesis by (intro conjI)
qed

lemma tuning_type_of_selector:
  "tuning_type_of (byteval p (CHR ''S'') 0) = strategy_of_selector (selector p)"
  by (simp add: tuning_type_of_def byteval_def strategy_of_selector_def selector_def
      split: option.splits param.splits)

text \<open>
  Claim C3. The \<open>switch\<close> on the selector byte agrees with the mapping of the spec for
  every byte \<open>b\<close>, and for a command without a value for S (the default 0 is read). No
  selector is rejected: with a valid index, in a build that tunes locally, the handler
  sets the status line, calls the autotune procedure once with the mapped strategy and
  resets the status (then reports to the host when the build is a CAN toolhead).
\<close>

theorem M306_strategy_mapping:
  assumes "unat (extruder_index cfg p s) < EXTRUDERS cfg"
    and "MPC_AUTOTUNE cfg" and "seen_test p (CHR ''T'')" and "\<not> CAN_HOST cfg"
  shows "tuning_type_of b = strategy_of_selector (Some b)
         \<and> tuning_type_of (byteval p (CHR ''S'') 0) = strategy_of_selector (selector p)
         \<and> M306 cfg tune p s =
             (if CAN_TOOLHEAD cfg then M306_report cfg True else Some)
               (s\<lparr>temp_hotend :=
                    tune (extruder_index cfg p s) (strategy_of_selector (selector p))
                      (temp_hotend s),
                  effects := effects s @
                    [LCD_MESSAGE MSG_MPC_AUTOTUNE,
                     MPC_autotune (extruder_index cfg p s) (strategy_of_selector (selector p)),
                     ui_reset_status]\<rparr>)"
proof (intro conjI)
  show "tuning_type_of b = strategy_of_selector (Some b)"
    by (simp add: tuning_type_of_def strategy_of_selector_def)
  show "tuning_type_of (byteval p (CHR ''S'') 0) = strategy_of_selector (selector p)"
    by (rule tuning_type_of_selector)
  from assms show "M306 cfg tune p s =
             (if CAN_TOOLHEAD cfg then M306_report cfg True else Some)
               (s\<lparr>temp_hotend :=
                    tune (extruder_index cfg p s) (strategy_of_selector (selector p))
                      (temp_hotend s),
                  effects := effects s @
                    [LCD_MESSAGE MSG_MPC_AUTOTUNE,
                     MPC_autotune (extruder_index cfg p s) (strategy_of_selector (selector p)),
                     ui_reset_status]\<rparr>)"
    by (simp add: M306_def autotune_local_def Let_def emit_def run_MPC_autotune_def
        tuning_type_of_selector)
qed

theorem M306_strategy_mapping_witness:
  "unat (extruder_index single_hotend cmd_T_S1 idle1) < EXTRUDERS single_hotend
   \<and> MPC_AUTOTUNE single_hotend \<and> seen_test cmd_T_S1 (CHR ''T'') \<and> \<not> CAN_HOST single_hotend
   \<and> M306 single_hotend no_tune cmd_T_S1 idle1 =
       Some (idle1\<lparr>effects := [LCD_MESSAGE MSG_MPC_AUTOTUNE,
                                MPC_autotune 0 FORCE_DIFFERENTIAL, ui_reset_status]\<rparr>)"
proof -
  have h1: "unat (extruder_index single_hotend cmd_T_S1 idle1) < EXTRUDERS single_hotend"
    by (simp add: single_hotend_def extruder_index_def)
  have h2: "MPC_AUTOTUNE single_hotend" and h4: "\<not> CAN_HOST single_hotend"
    and tool: "\<not> CAN_TOOLHEAD single_hotend"
    by (simp_all add: single_hotend_def)
  have h3: "seen_test cmd_T_S1 (CHR ''T'')"
    by (simp add: seen_test_def cmd_T_S1_def)
  have sel: "strategy_of_selector (selector cmd_T_S1) = FORCE_DIFFERENTIAL"
    by (simp add: strategy_of_selector_def selector_def cmd_T_S1_def)
  have idx: "extruder_index single_hotend cmd_T_S1 idle1 = 0"
    by (simp add: single_hotend_def extruder_index_def)
  have r1: "M306 single_hotend no_tune cmd_T_S1 idle1 =
       Some (idle1\<lparr>temp_hotend := no_tune 0 FORCE_DIFFERENTIAL (temp_hotend idle1),
                   effects := effects idle1 @
                     [LCD_MESSAGE MSG_MPC_AUTOTUNE, MPC_autotune 0 FORCE_DIFFERENTIAL,
                      ui_reset_status]\<rparr>)"
    using conjunct2 [OF conjunct2 [OF M306_strategy_mapping [OF h1 h2 h3 h4, of 0 no_tune]]]
    by (simp add: sel idx tool)
  have r2: "idle1\<lparr>temp_hotend := no_tune 0 FORCE_DIFFERENTIAL (temp_hotend idle1),
                   effects := effects idle1 @
                     [LCD_MESSAGE MSG_MPC_AUTOTUNE, MPC_autotune 0 FORCE_DIFFERENTIAL,
                      ui_reset_status]\<rparr> =
            idle1\<lparr>effects := [LCD_MESSAGE MSG_MPC_AUTOTUNE,
                                MPC_autotune 0 FORCE_DIFFERENTIAL, ui_reset_status]\<rparr>"
    by (simp add: no_tune_def idle1_def)
  from r1 have "M306 single_hotend no_tune cmd_T_S1 idle1 =
       Some (idle1\<lparr>effects := [LCD_MESSAGE MSG_MPC_AUTOTUNE,
                                MPC_autotune 0 FORCE_DIFFERENTIAL, ui_reset_status]\<rparr>)"
    by (simp only: r2)
  with h1 h2 h3 h4 show ?thesis by (intro conjI)
qed

text \<open>In exact arithmetic the derived fan coefficient is the full-fan coefficient minus the baseline.\<close>

lemma fan_full_minus_baseline:
  fixes mpc :: "('f::ab_group_add) MPC_t"
  shows "ambient_xfer_coeff_fan_full mpc - ambient_xfer_coeff_fan0 mpc = fanCoefficient mpc"
  by (simp add: ambient_xfer_coeff_fan_full_def fanCoefficient_def)

lemma floatval_seen:
  "floatval p c = Some v \<Longrightarrow> c \<in> set cs \<Longrightarrow> seen p cs"
  by (auto simp add: floatval_def seen_def list_ex_iff split: option.splits)

lemma set_fields_fan:
  assumes "MPC_INCLUDE_FAN cfg" and "floatval p (CHR ''F'') = Some v"
  shows "fanCoefficient (set_fields cfg p mpc) = v"
  using assms
  by (simp add: set_fields_def Let_def fanCoefficient_def applyFanAdjustment_def
      split: option.splits)

lemma set_fields_baseline:
  assumes "floatval p (CHR ''A'') = None"
  shows "ambient_xfer_coeff_fan0 (set_fields cfg p mpc) = ambient_xfer_coeff_fan0 mpc"
  using assms
  by (simp add: set_fields_def Let_def applyFanAdjustment_def split: option.splits)

text \<open>
  Claim C5. In a build with \<open>MPC_INCLUDE_FAN\<close>, for a valid index and a command (not an
  autotune request) in which F carries the value \<open>v\<close> and A carries none, the handler
  leaves \<open>ambient_xfer_coeff_fan0\<close> of the element as it was, and the derived fan
  coefficient of the element, which \<open>fanCoefficient\<close> returns and the report prints
  under F, is \<open>v\<close> afterwards, whatever other fields the command sets. The handler
  assigns no field for F: the value goes through \<open>applyFanAdjustment\<close>, whose body is
  the one modelled from the spec above.
\<close>

theorem M306_fan_update:
  assumes "MPC_INCLUDE_FAN cfg"
    and "\<not> (MPC_AUTOTUNE cfg \<and> seen_test p (CHR ''T''))"
    and "unat (extruder_index cfg p s) < EXTRUDERS cfg"
    and "unat (extruder_index cfg p s) < length (temp_hotend s)"
    and "floatval p (CHR ''F'') = Some v"
    and "floatval p (CHR ''A'') = None"
  shows "\<exists>s'. M306 cfg tune p s = Some s'
           \<and> ambient_xfer_coeff_fan0 (temp_hotend s' ! unat (extruder_index cfg p s)) =
               ambient_xfer_coeff_fan0 (temp_hotend s ! unat (extruder_index cfg p s))
           \<and> fanCoefficient (temp_hotend s' ! unat (extruder_index cfg p s)) = v"
proof -
  have "seen p ''ACFPRH''"
    using assms(5) by (rule floatval_seen) simp
  with assms(2,3,4) have "M306 cfg tune p s =
      Some (s\<lparr>temp_hotend := (temp_hotend s)[unat (extruder_index cfg p s) :=
         set_fields cfg p (temp_hotend s ! unat (extruder_index cfg p s))]\<rparr>)"
    by (auto simp add: M306_def Let_def)
  with assms(4) show ?thesis
    by (simp add: set_fields_fan [OF assms(1,5)] set_fields_baseline [OF assms(6)])
qed

theorem M306_fan_update_witness:
  "MPC_INCLUDE_FAN two_extruders
   \<and> \<not> (MPC_AUTOTUNE two_extruders \<and> seen_test cmd_E1_F (CHR ''T''))
   \<and> unat (extruder_index two_extruders cmd_E1_F idle) < EXTRUDERS two_extruders
   \<and> unat (extruder_index two_extruders cmd_E1_F idle) < length (temp_hotend idle)
   \<and> floatval cmd_E1_F (CHR ''F'') = Some (5 / 100)
   \<and> floatval cmd_E1_F (CHR ''A'') = None
   \<and> (\<exists>s'. M306 two_extruders no_tune cmd_E1_F idle = Some s'
         \<and> ambient_xfer_coeff_fan0 (temp_hotend s' ! 1) = ambient_xfer_coeff_fan0 stock_mpc
         \<and> fanCoefficient (temp_hotend s' ! 1) = 5 / 100)"
proof -
  have idx: "extruder_index two_extruders cmd_E1_F idle = 1"
    by (simp add: two_extruders_def extruder_index_def intval_def cmd_E1_F_def)
  have h1: "MPC_INCLUDE_FAN two_extruders"
    by (simp add: two_extruders_def)
  have h2: "\<not> (MPC_AUTOTUNE two_extruders \<and> seen_test cmd_E1_F (CHR ''T''))"
    by (simp add: seen_test_def cmd_E1_F_def)
  have h3: "unat (extruder_index two_extruders cmd_E1_F idle) < EXTRUDERS two_extruders"
    by (simp add: idx) (simp add: two_extruders_def)
  have h4: "unat (extruder_index two_extruders cmd_E1_F idle) < length (temp_hotend idle)"
    by (simp add: idx) (simp add: idle_def)
  have h5: "floatval cmd_E1_F (CHR ''F'') = Some (5 / 100)"
    by (simp add: floatval_def cmd_E1_F_def)
  have h6: "floatval cmd_E1_F (CHR ''A'') = None"
    by (simp add: floatval_def cmd_E1_F_def)
  have old: "temp_hotend idle ! Suc 0 = stock_mpc"
    by (simp add: idle_def)
  have "\<exists>s'. M306 two_extruders no_tune cmd_E1_F idle = Some s'
         \<and> ambient_xfer_coeff_fan0 (temp_hotend s' ! 1) = ambient_xfer_coeff_fan0 stock_mpc
         \<and> fanCoefficient (temp_hotend s' ! 1) = 5 / 100"
    using M306_fan_update [OF h1 h2 h3 h4 h5 h6, of no_tune] by (simp add: idx old)
  with h1 h2 h3 h4 h5 h6 show ?thesis by (intro conjI)
qed

text \<open>
  Claim C6. On a CAN host, for a valid index, every command with the letter T (whatever
  its S parameter) leaves the state as it was but for one \<open>SERIAL_ECHOLNPGM\<close> appended
  to the effects: the model store is not changed and no call of the autotune procedure
  is recorded.
\<close>

theorem M306_host_autotune_frame:
  assumes "CAN_HOST cfg" and "MPC_AUTOTUNE cfg" and "seen_test p (CHR ''T'')"
    and "unat (extruder_index cfg p s) < EXTRUDERS cfg"
  shows "\<exists>args. M306 cfg tune p s = Some (s\<lparr>effects := effects s @ [SERIAL_ECHOLNPGM args]\<rparr>)"
proof -
  from assms have "M306 cfg tune p s = Some (emit (forwarding_notice cfg) s)"
    by (simp add: M306_def Let_def)
  then show ?thesis
    unfolding emit_def forwarding_notice_def by blast
qed

theorem M306_host_autotune_frame_witness:
  "CAN_HOST can_host \<and> MPC_AUTOTUNE can_host \<and> seen_test cmd_T_S1 (CHR ''T'')
   \<and> unat (extruder_index can_host cmd_T_S1 idle1) < EXTRUDERS can_host
   \<and> (\<exists>args. M306 can_host retune cmd_T_S1 idle1 =
               Some (idle1\<lparr>effects := effects idle1 @ [SERIAL_ECHOLNPGM args]\<rparr>))"
proof -
  have h1: "CAN_HOST can_host" and h2: "MPC_AUTOTUNE can_host"
    by (simp_all add: can_host_def)
  have h3: "seen_test cmd_T_S1 (CHR ''T'')"
    by (simp add: seen_test_def cmd_T_S1_def)
  have h4: "unat (extruder_index can_host cmd_T_S1 idle1) < EXTRUDERS can_host"
    by (simp add: can_host_def extruder_index_def)
  from h1 h2 h3 h4 M306_host_autotune_frame [OF h1 h2 h3 h4, of retune]
  show ?thesis by (intro conjI)
qed

text \<open>
  Claim C7, as amended. On a CAN host the forwarding notice prints one number, the
  constant \<open>MPC_HEATER_POWER\<close> of the build, with one decimal place; the model store is
  not read.
\<close>

theorem M306_host_notice_power:
  assumes "CAN_HOST cfg" and "MPC_AUTOTUNE cfg" and "seen_test p (CHR ''T'')"
    and "unat (extruder_index cfg p s) < EXTRUDERS cfg"
  shows "M306 cfg tune p s =
           Some (s\<lparr>effects := effects s @
             [SERIAL_ECHOLNPGM
                [PSTR (''>>> Forwarding M306 to toolhead'' @ [CHR 0x0A]
                       @ ''>>> Store MPC setup in the host Configuration.h or use M500''
                       @ [CHR 0x0A] @ ''>>> MPC heater power is: ''),
                 p_float_t (MPC_HEATER_POWER cfg) 1,
                 PSTR ('' Watts'' @ [CHR 0x0A]
                       @ ''>>> Please wait for the auto tune results...'')]]\<rparr>)"
  using assms by (simp add: M306_def Let_def emit_def forwarding_notice_def)

theorem M306_host_notice_power_witness:
  "CAN_HOST can_host \<and> MPC_AUTOTUNE can_host \<and> seen_test cmd_T (CHR ''T'')
   \<and> unat (extruder_index can_host cmd_T warm) < EXTRUDERS can_host
   \<and> M306 can_host no_tune cmd_T warm =
       Some (warm\<lparr>effects := effects warm @
         [SERIAL_ECHOLNPGM
            [PSTR (''>>> Forwarding M306 to toolhead'' @ [CHR 0x0A]
                   @ ''>>> Store MPC setup in the host Configuration.h or use M500''
                   @ [CHR 0x0A] @ ''>>> MPC heater power is: ''),
             p_float_t 40 1,
             PSTR ('' Watts'' @ [CHR 0x0A]
                   @ ''>>> Please wait for the auto tune results...'')]]\<rparr>)"
proof -
  have h1: "CAN_HOST can_host" and h2: "MPC_AUTOTUNE can_host"
    and power: "MPC_HEATER_POWER can_host = 40"
    by (simp_all add: can_host_def)
  have h3: "seen_test cmd_T (CHR ''T'')"
    by (simp add: seen_test_def cmd_T_def)
  have h4: "unat (extruder_index can_host cmd_T warm) < EXTRUDERS can_host"
    by (simp add: can_host_def extruder_index_def)
  from M306_host_notice_power [OF h1 h2 h3 h4, of no_tune] h1 h2 h3 h4
  show ?thesis by (simp add: power)
qed

text \<open>
  Claim C7 as it was stated fails: in the store \<open>warm\<close> the heater power of hotend 0 is
  50, the build constant is 40, and the notice of \<open>M306 T\<close> prints 40; the stored heater
  power is not among the numbers the command prints.
\<close>

theorem M306_host_notice_power_counterexample:
  "heater_power (temp_hotend warm ! unat (extruder_index can_host cmd_T warm)) = 50
   \<and> M306 can_host no_tune cmd_T warm =
       Some (warm\<lparr>effects :=
         [SERIAL_ECHOLNPGM
            [PSTR (''>>> Forwarding M306 to toolhead'' @ [CHR 0x0A]
                   @ ''>>> Store MPC setup in the host Configuration.h or use M500'' @ [CHR 0x0A]
                   @ ''>>> MPC heater power is: ''),
             p_float_t 40 1,
             PSTR ('' Watts'' @ [CHR 0x0A] @ ''>>> Please wait for the auto tune results...'')]]\<rparr>)
   \<and> heater_power (temp_hotend warm ! unat (extruder_index can_host cmd_T warm))
       \<notin> set (concat (map printed_floats
                 (effects (the (M306 can_host no_tune cmd_T warm)))))"
  by (simp add: M306_def Let_def can_host_def extruder_index_def seen_test_def cmd_T_def
      warm_def emit_def forwarding_notice_def)

lemma set_fields_no_values:
  assumes "\<forall>c \<in> set ''ACFPRH''. \<not> seenval p c"
  shows "set_fields cfg p mpc = mpc"
proof -
  have "floatval p c = None" if "c \<in> set ''ACFPRH''" for c
    using assms that by (auto simp add: floatval_def seenval_def split: option.splits param.splits)
  then show ?thesis
    by (simp add: set_fields_def Let_def)
qed

text \<open>
  Claim C10. For a valid index and a command that is not an autotune request, when one of
  the letters A, C, F, P, R, H occurs in the command and none of them has a value, the
  handler returns with the state as it was: no field of the model store is changed and
  nothing is reported.
\<close>

theorem M306_letters_without_values:
  assumes "\<not> (MPC_AUTOTUNE cfg \<and> seen_test p (CHR ''T''))"
    and "unat (extruder_index cfg p s) < EXTRUDERS cfg"
    and "unat (extruder_index cfg p s) < length (temp_hotend s)"
    and "seen p ''ACFPRH''"
    and "\<forall>c \<in> set ''ACFPRH''. \<not> seenval p c"
  shows "M306 cfg tune p s = Some s"
  using assms(1-4) by (auto simp add: M306_def Let_def set_fields_no_values [OF assms(5)])

theorem M306_letters_without_values_witness:
  "\<not> (MPC_AUTOTUNE single_hotend \<and> seen_test cmd_P (CHR ''T''))
   \<and> unat (extruder_index single_hotend cmd_P idle1) < EXTRUDERS single_hotend
   \<and> unat (extruder_index single_hotend cmd_P idle1) < length (temp_hotend idle1)
   \<and> seen cmd_P ''ACFPRH''
   \<and> list_all (\<lambda>c. \<not> seenval cmd_P c) ''ACFPRH''
   \<and> M306 single_hotend no_tune cmd_P idle1 = Some idle1"
proof -
  have h1: "\<not> (MPC_AUTOTUNE single_hotend \<and> seen_test cmd_P (CHR ''T''))"
    by (simp add: seen_test_def cmd_P_def)
  have h2: "unat (extruder_index single_hotend cmd_P idle1) < EXTRUDERS single_hotend"
    by (simp add: single_hotend_def extruder_index_def)
  have h3: "unat (extruder_index single_hotend cmd_P idle1) < length (temp_hotend idle1)"
    by (simp add: single_hotend_def extruder_index_def idle1_def)
  have h4: "seen cmd_P ''ACFPRH''"
    by (simp add: seen_def cmd_P_def)
  have h5: "\<forall>c \<in> set ''ACFPRH''. \<not> seenval cmd_P c"
    by (simp add: seenval_def cmd_P_def)
  from h5 have h5': "list_all (\<lambda>c. \<not> seenval cmd_P c) ''ACFPRH''"
    by (simp only: list_all_iff)
  from h1 h2 h3 h4 h5' M306_letters_without_values [OF h1 h2 h3 h4 h5, of no_tune]
  show ?thesis by (intro conjI)
qed

text \<open>
  Claim C4. When the build does not suppress reports, the text the report writes through
  the serial macros is (after the host notice of a CAN host in replay mode) one line for
  each hotend, in index order: two blanks, then the canonical line
  \<open>M306 E<index> P<2dp> C<2dp> R<4dp> A<4dp> [F<4dp>] H<4dp>\<close>, the F field being there
  exactly when the build has \<open>MPC_INCLUDE_FAN\<close>.
\<close>

theorem M306_report_canonical_lines:
  assumes "\<not> MARLIN_SMALL_BUILD cfg" and "length (temp_hotend s) = HOTENDS cfg"
    and "0 < HOTENDS cfg"
  shows "\<exists>out. M306_report cfg forReplay s = Some (s\<lparr>effects := effects s @ out\<rparr>)
           \<and> serial_text fmt out =
               (if CAN_HOST cfg \<and> forReplay
                then ''>>> Host M306 MPC settings:'' @ [CHR 0x0A] else [])
               @ report_lines fmt cfg (temp_hotend s)"
proof -
  have "M306_report cfg forReplay s =
          Some (s\<lparr>effects := effects s @ report_effects cfg forReplay (temp_hotend s)\<rparr>)"
    using assms by (intro M306_report_effects) simp_all
  then show ?thesis
    using serial_text_report_effects [of fmt cfg forReplay "temp_hotend s"] by blast
qed

theorem M306_report_canonical_lines_witness:
  "\<not> MARLIN_SMALL_BUILD single_hotend \<and> length (temp_hotend scenario) = HOTENDS single_hotend
   \<and> 0 < HOTENDS single_hotend
   \<and> M306 single_hotend no_tune cmd_scenario idle1 = Some scenario
   \<and> (\<exists>out. M306_report single_hotend False scenario =
               Some (scenario\<lparr>effects := effects scenario @ out\<rparr>)
         \<and> serial_text fixed_dp out =
             ''  M306 E0 P150.00 C33.00 R0.1000 A0.1200 H0.4000'' @ [CHR 0x0A])"
proof -
  have h1: "\<not> MARLIN_SMALL_BUILD single_hotend" and h3: "0 < HOTENDS single_hotend"
    by (simp_all add: single_hotend_def)
  have h2: "length (temp_hotend scenario) = HOTENDS single_hotend"
    by (simp add: single_hotend_def scenario_def)
  have "\<exists>out. M306_report single_hotend False scenario =
               Some (scenario\<lparr>effects := effects scenario @ out\<rparr>)
         \<and> serial_text fixed_dp out =
             ''  M306 E0 P150.00 C33.00 R0.1000 A0.1200 H0.4000'' @ [CHR 0x0A]"
    using M306_report_canonical_lines [OF h1 h2 h3, of False fixed_dp]
    by (simp only: scenario_lines simp_thms if_False append_Nil)
  with h1 h2 h3 scenario_applied show ?thesis by (intro conjI)
qed

text \<open>
  Claim C8. On a CAN toolhead whose build does not suppress reports, a report in replay
  mode ends with one \<open>CAN_toolhead_send_string\<close>, and that is its only transmission. The
  buffer sent holds the canonical line of hotend 0, cut at 100 characters. Before it, the
  console has received the line of every hotend, as in any other build.
\<close>

theorem M306_report_toolhead:
  assumes "CAN_TOOLHEAD cfg" and "\<not> MARLIN_SMALL_BUILD cfg"
    and "length (temp_hotend s) = HOTENDS cfg" and "0 < HOTENDS cfg"
  shows "\<exists>console.
           M306_report cfg True s =
             Some (s\<lparr>effects := effects s @ console @
                     [CAN_toolhead_send_string (toolhead_buffer cfg (temp_hotend s ! 0))]\<rparr>)
           \<and> sent_buffers console = []
           \<and> serial_text fmt console =
               (if CAN_HOST cfg then ''>>> Host M306 MPC settings:'' @ [CHR 0x0A] else [])
               @ report_lines fmt cfg (temp_hotend s)
           \<and> MString_text fmt' (toolhead_buffer cfg (temp_hotend s ! 0)) =
               take 100 (canonical_line fmt' (MPC_INCLUDE_FAN cfg) 0 (temp_hotend s ! 0))"
proof -
  let ?can = "CAN_toolhead_send_string (toolhead_buffer cfg (temp_hotend s ! 0))"
  let ?console = "butlast (report_effects cfg True (temp_hotend s))"
  have split: "report_effects cfg True (temp_hotend s) = ?console @ [?can]"
    using assms(1) by (simp add: report_effects_def butlast_append)
  have run: "M306_report cfg True s =
          Some (s\<lparr>effects := effects s @ report_effects cfg True (temp_hotend s)\<rparr>)"
    using assms by (intro M306_report_effects) simp_all
  have "sent_buffers (report_effects cfg True (temp_hotend s)) = [toolhead_buffer cfg (temp_hotend s ! 0)]"
    using assms(1) by (simp add: sent_buffers_report_effects)
  with split have none: "sent_buffers ?console = []"
    by (metis append_self_conv2 sent_buffers.simps(1,2) sent_buffers_append)
  have "serial_text fmt (report_effects cfg True (temp_hotend s)) = serial_text fmt ?console"
    by (subst split) (simp add: serial_text_append serial_text_Cons serial_text_Nil)
  then have console: "serial_text fmt ?console =
      (if CAN_HOST cfg then ''>>> Host M306 MPC settings:'' @ [CHR 0x0A] else [])
      @ report_lines fmt cfg (temp_hotend s)"
    by (simp add: serial_text_report_effects)
  from run split none console toolhead_buffer_text [of fmt' cfg "temp_hotend s ! 0"]
  show ?thesis by (intro exI [of _ ?console]) simp
qed

theorem M306_report_toolhead_witness:
  "CAN_TOOLHEAD can_toolhead \<and> \<not> MARLIN_SMALL_BUILD can_toolhead
   \<and> length (temp_hotend idle1) = HOTENDS can_toolhead \<and> 0 < HOTENDS can_toolhead
   \<and> (\<exists>console.
         M306_report can_toolhead True idle1 =
           Some (idle1\<lparr>effects := effects idle1 @ console @
                   [CAN_toolhead_send_string (toolhead_buffer can_toolhead stock_mpc)]\<rparr>)
         \<and> sent_buffers console = []
         \<and> serial_text fixed_dp console =
             ''  M306 E0 P40.00 C16.75 R0.2200 A0.0680 F0.0290 H0.0056'' @ [CHR 0x0A]
         \<and> MString_text fixed_dp (toolhead_buffer can_toolhead stock_mpc) =
             ''M306 E0 P40.00 C16.75 R0.2200 A0.0680 F0.0290 H0.0056'')"
proof -
  have h1: "CAN_TOOLHEAD can_toolhead" and h2: "\<not> MARLIN_SMALL_BUILD can_toolhead"
    and h4: "0 < HOTENDS can_toolhead" and host: "\<not> CAN_HOST can_toolhead"
    and fan: "MPC_INCLUDE_FAN can_toolhead"
    by (simp_all add: can_toolhead_def)
  have h3: "length (temp_hotend idle1) = HOTENDS can_toolhead"
    by (simp add: can_toolhead_def idle1_def)
  have first: "temp_hotend idle1 ! 0 = stock_mpc"
    by (simp add: idle1_def)
  have cut: "take 100 ''M306 E0 P40.00 C16.75 R0.2200 A0.0680 F0.0290 H0.0056'' =
      ''M306 E0 P40.00 C16.75 R0.2200 A0.0680 F0.0290 H0.0056''"
    by simp
  have "\<exists>console.
         M306_report can_toolhead True idle1 =
           Some (idle1\<lparr>effects := effects idle1 @ console @
                   [CAN_toolhead_send_string (toolhead_buffer can_toolhead stock_mpc)]\<rparr>)
         \<and> sent_buffers console = []
         \<and> serial_text fixed_dp console =
             ''  M306 E0 P40.00 C16.75 R0.2200 A0.0680 F0.0290 H0.0056'' @ [CHR 0x0A]
         \<and> MString_text fixed_dp (toolhead_buffer can_toolhead stock_mpc) =
             ''M306 E0 P40.00 C16.75 R0.2200 A0.0680 F0.0290 H0.0056''"
    using M306_report_toolhead [OF h1 h2 h3 h4, of fixed_dp fixed_dp]
    by (simp only: first fan host toolhead_lines stock_line cut if_False append_Nil)
  with h1 h2 h3 h4 show ?thesis by (intro conjI)
qed

end
